theory Spec2Isabelle
  imports Complex_Main
begin

section \<open>Values exchanged by the integrator\<close>

text \<open>
  Python floats and tensor entries are modelled as real numbers: the rounding of an
  arithmetic result is outside the model. What is not left out is written where it
  decides a result: the wrap-around of 64-bit integers, the division by zero of floats,
  and the conversion of a Python number to the floating type of a tensor it is compared
  with. Tensors are the ones the trainer, the posterior and the integrands exchange, of
  rank at most two: a 0-d tensor, a vector, or a matrix given by its number of columns and
  its rows (a batch of points is a matrix, one point per row). A matrix is well formed
  when every row has the declared number of columns, which the statements about batches
  require with \<open>list_all (\<lambda>r. length r = c) rows\<close>. The entries are real numbers, except in
  the results of a float division, whose entries may be infinite or \<open>nan\<close>.
\<close>

datatype 'a gtensor = T0 'a | T1 "'a list" | T2 nat "'a list list"

type_synonym tensor = "real gtensor"

fun shape :: "'a gtensor \<Rightarrow> nat list" where
  "shape (T0 v) = []"
| "shape (T1 vs) = [length vs]"
| "shape (T2 c rs) = [length rs, c]"

text \<open>
  Every raise of the modelled code is a value of \<open>error\<close>. \<open>AssertionError\<close> carries the
  message of the failed \<open>assert\<close> (empty when the source gives none); \<open>ExternalError\<close>
  stands for whatever an external collaborator (trainer, posterior, integrand) raises.
\<close>

datatype error = AssertionError string | IndexError | ZeroDivisionError | RuntimeError
  | ExternalError

text \<open>
  The result of a float division in numpy and in torch: neither raises on a zero divisor,
  the result is \<open>inf\<close>, \<open>-inf\<close> or \<open>nan\<close>. The operations that the sources apply to
  such a result follow IEEE 754: \<open>nan\<close> propagates, \<open>inf - inf\<close> and \<open>0 \<sqdot> inf\<close> are
  \<open>nan\<close>, and \<open>exp(-inf)\<close> is 0.
\<close>

datatype npfloat = Finite real | PosInf | NegInf | NaN

definition np_div :: "real \<Rightarrow> real \<Rightarrow> npfloat" where
  "np_div a b =
     (if b \<noteq> 0 then Finite (a / b)
      else if 0 < a then PosInf else if a < 0 then NegInf else NaN)"

fun np_sqrt :: "npfloat \<Rightarrow> npfloat" where
  "np_sqrt (Finite r) = (if r < 0 then NaN else Finite (sqrt r))"
| "np_sqrt PosInf = PosInf"
| "np_sqrt NegInf = NaN"
| "np_sqrt NaN = NaN"

fun np_square :: "npfloat \<Rightarrow> npfloat" where
  "np_square (Finite r) = Finite (r\<^sup>2)"
| "np_square PosInf = PosInf"
| "np_square NegInf = PosInf"
| "np_square NaN = NaN"

fun np_add :: "npfloat \<Rightarrow> npfloat \<Rightarrow> npfloat" where
  "np_add (Finite a) (Finite b) = Finite (a + b)"
| "np_add NaN y = NaN"
| "np_add x NaN = NaN"
| "np_add PosInf NegInf = NaN"
| "np_add NegInf PosInf = NaN"
| "np_add PosInf y = PosInf"
| "np_add x PosInf = PosInf"
| "np_add NegInf y = NegInf"
| "np_add x NegInf = NegInf"

definition np_sum :: "npfloat list \<Rightarrow> npfloat" where
  "np_sum xs = foldr np_add xs (Finite 0)"

text \<open>\<open>exp(-v)\<close>.\<close>

fun np_exp_neg :: "npfloat \<Rightarrow> npfloat" where
  "np_exp_neg (Finite r) = Finite (exp (- r))"
| "np_exp_neg PosInf = Finite 0"
| "np_exp_neg NegInf = PosInf"
| "np_exp_neg NaN = NaN"

text \<open>The product of a finite number with such a result.\<close>

fun np_scale :: "real \<Rightarrow> npfloat \<Rightarrow> npfloat" where
  "np_scale a (Finite r) = Finite (a * r)"
| "np_scale a PosInf = (if 0 < a then PosInf else if a < 0 then NegInf else NaN)"
| "np_scale a NegInf = (if 0 < a then NegInf else if a < 0 then PosInf else NaN)"
| "np_scale a NaN = NaN"

text \<open>
  A numpy \<open>int64\<close> holds an integer modulo \<open>2\<^sup>6\<^sup>4\<close>, read as a signed number: arithmetic
  on it wraps around.
\<close>

definition int64 :: "int \<Rightarrow> int" where
  "int64 i = (i + 2 ^ 63) mod 2 ^ 64 - 2 ^ 63"

section \<open>The integration history and the integrator object\<close>

text \<open>
  One row of the \<open>integration_history\<close> data frame. The column \<open>training record\<close> is
  filled by survey steps only; a refine row has no value there. \<open>n_points\<close> is a batch
  size read from a tensor's shape, hence a natural number.
\<close>

record 'r history_row =
  integral :: real
  error :: real
  n_points :: nat
  phase :: string
  training_record :: "'r option"

type_synonym sample = "tensor \<times> tensor \<times> tensor"

text \<open>
  The attributes of a \<open>PosteriorSurveySamplingIntegrator\<close>. The trainer, the posterior and
  the training records are external objects, kept abstract as type parameters.
  \<open>self_f\<close> is the attribute \<open>f\<close> and \<open>self_d\<close> the attribute \<open>d\<close> that only
  \<open>FlatSurveySamplingIntegrator\<close> sets.
\<close>

record ('tr, 'po, 'r) integrator =
  self_f :: "tensor \<Rightarrow> error + tensor"
  model_trainer :: 'tr
  posterior :: 'po
  n_iter_survey :: int
  n_iter_refine :: int
  n_points_survey :: int
  n_points_refine :: int
  use_survey :: bool
  integration_history :: "'r history_row list"
  self_d :: "int option"

definition empty_history :: "'r history_row list" where
  "empty_history = []"


subsection \<open>Pooling the recorded iterations\<close>

text \<open>
  The columns \<open>integral\<close> and \<open>error\<close> are floats and \<open>n_points\<close> is an \<open>int64\<close>
  column. The products of a float column with \<open>n_points\<close> and their sums are floats;
  \<open>data["n_points"].sum()\<close> is an \<open>int64\<close>, and so is its square
  \<open>(data["n_points"].sum()) ** 2\<close>, which wraps around; the divisions convert it to a
  float. A batch size is the size of a tensor axis, hence below \<open>2\<^sup>6\<^sup>3\<close>.
\<close>

definition selected_data :: "bool \<Rightarrow> 'r history_row list \<Rightarrow> 'r history_row list" where
  "selected_data us h = (if us then h else filter (\<lambda>r. phase r = ''refine'') h)"

definition finalize_integration ::
  "bool option \<Rightarrow> ('tr, 'po, 'r) integrator \<Rightarrow> npfloat \<times> npfloat \<times> 'r history_row list" where
  "finalize_integration use_survey_arg s =
     (let us = (case use_survey_arg of None \<Rightarrow> use_survey s | Some b \<Rightarrow> b);
          data = selected_data us (integration_history s);
          result = (\<Sum>r\<leftarrow>data. integral r * real (n_points r));
          total = int64 (\<Sum>r\<leftarrow>data. int (n_points r));
          result' = np_div result (real_of_int total);
          err = np_sqrt (np_div (\<Sum>r\<leftarrow>data. (error r * real (n_points r))\<^sup>2)
                                (real_of_int (int64 (total * total))))
      in (result', err, integration_history s))"

subsection \<open>Tensor operations used by the integrator\<close>

text \<open>\<open>x.shape[0]\<close>: a 0-d tensor has an empty shape, and indexing it raises.\<close>

definition shape0 :: "tensor \<Rightarrow> error + nat" where
  "shape0 x = (case shape x of [] \<Rightarrow> Inl IndexError | n # _ \<Rightarrow> Inr n)"

text \<open>
  \<open>xj[:, :-1]\<close>: all columns but the last. The slice of a matrix without columns is
  empty; a tensor of rank below two has no second axis.
\<close>

fun but_last_column :: "tensor \<Rightarrow> error + tensor" where
  "but_last_column (T2 c rs) = Inr (T2 (c - 1) (map (take (c - 1)) rs))"
| "but_last_column t = Inl IndexError"

text \<open>\<open>xj[:, -1]\<close>: the last column, which a matrix without columns does not have.\<close>

fun last_column :: "tensor \<Rightarrow> error + tensor" where
  "last_column (T2 c rs) =
     (if c = 0 then Inl IndexError else Inr (T1 (map (\<lambda>r. r ! (c - 1)) rs)))"
| "last_column t = Inl IndexError"

fun tmap :: "('a \<Rightarrow> 'b) \<Rightarrow> 'a gtensor \<Rightarrow> 'b gtensor" where
  "tmap g (T0 v) = T0 (g v)"
| "tmap g (T1 vs) = T1 (map g vs)"
| "tmap g (T2 c rs) = T2 c (map (map g) rs)"

text \<open>\<open>torch.exp(-t)\<close>, elementwise.\<close>

definition exp_neg :: "tensor \<Rightarrow> tensor" where
  "exp_neg t = tmap (\<lambda>v. exp (- v)) t"

subsection \<open>Sampling\<close>

text \<open>
  \<open>BasicStatefulTrainer.generate_target_batch_from_posterior\<close> and the trainer's
  \<open>sample_forward\<close> belong to external collaborators: they are parameters \<open>gen\<close> and
  \<open>sf\<close> of the model. Each may raise, and each returns its object (the posterior, the
  trainer) in the state in which the call leaves it. The integrand is a pure callable.
  An argument that Python defaults to \<open>None\<close> is an option.
\<close>

definition sample_survey ::
  "(int \<Rightarrow> (tensor \<Rightarrow> error + tensor) \<Rightarrow> 'po \<Rightarrow> (error + sample) \<times> 'po) \<Rightarrow>
   int option \<Rightarrow> (tensor \<Rightarrow> error + tensor) option \<Rightarrow>
   ('tr, 'po, 'r) integrator \<Rightarrow> (error + sample) \<times> ('tr, 'po, 'r) integrator" where
  "sample_survey gen n_points_arg f_arg s =
     (let n = (case n_points_arg of None \<Rightarrow> n_points_survey s | Some n \<Rightarrow> n);
          g = (case f_arg of None \<Rightarrow> self_f s | Some g \<Rightarrow> g);
          (res, po') = gen n g (posterior s)
      in (res, s\<lparr>posterior := po'\<rparr>))"

definition sample_refine ::
  "('tr \<Rightarrow> int \<Rightarrow> (error + tensor) \<times> 'tr) \<Rightarrow>
   int option \<Rightarrow> (tensor \<Rightarrow> error + tensor) option \<Rightarrow>
   ('tr, 'po, 'r) integrator \<Rightarrow> (error + sample) \<times> ('tr, 'po, 'r) integrator" where
  "sample_refine sf n_points_arg f_arg s =
     (let n = (case n_points_arg of None \<Rightarrow> n_points_refine s | Some n \<Rightarrow> n);
          g = (case f_arg of None \<Rightarrow> self_f s | Some g \<Rightarrow> g);
          (res, tr') = sf (model_trainer s) n;
          s' = s\<lparr>model_trainer := tr'\<rparr>
      in case res of
           Inl e \<Rightarrow> (Inl e, s')
         | Inr xj \<Rightarrow>
             (case but_last_column xj of
                Inl e \<Rightarrow> (Inl e, s')
              | Inr x \<Rightarrow>
                  (case last_column xj of
                     Inl e \<Rightarrow> (Inl e, s')
                   | Inr l \<Rightarrow>
                       (let px = exp_neg l in
                        case g x of
                          Inl e \<Rightarrow> (Inl e, s')
                        | Inr fx \<Rightarrow> (Inr (x, px, fx), s')))))"

subsection \<open>Recording one iteration\<close>

text \<open>
  \<open>(integral_var / n_points) ** 0.5\<close> on Python floats: the division raises on a batch of
  no points. \<open>integral_var\<close> is a sample variance; for a negative quotient Python's power
  leaves the floats (it yields a complex number), a case no statement below relies on.
\<close>

definition error_of_variance :: "real \<Rightarrow> nat \<Rightarrow> error + real" where
  "error_of_variance integral_var n =
     (if n = 0 then Inl ZeroDivisionError else Inr (sqrt (integral_var / real n)))"

definition process_survey_step ::
  "sample \<Rightarrow> real \<Rightarrow> real \<Rightarrow> 'r \<Rightarrow> ('tr, 'po, 'r) integrator \<Rightarrow>
   (error + unit) \<times> ('tr, 'po, 'r) integrator" where
  "process_survey_step smp integral_arg integral_var training_rec s =
     (case smp of (x, px, fx) \<Rightarrow>
        (case shape0 x of
           Inl e \<Rightarrow> (Inl e, s)
         | Inr n \<Rightarrow>
             (case error_of_variance integral_var n of
                Inl e \<Rightarrow> (Inl e, s)
              | Inr err \<Rightarrow>
                  (Inr (), s\<lparr>integration_history := integration_history s @
                     [\<lparr>integral = integral_arg, error = err, n_points = n,
                       phase = ''survey'', training_record = Some training_rec\<rparr>]\<rparr>))))"

definition process_refine_step ::
  "sample \<Rightarrow> real \<Rightarrow> real \<Rightarrow> ('tr, 'po, 'r) integrator \<Rightarrow>
   (error + unit) \<times> ('tr, 'po, 'r) integrator" where
  "process_refine_step smp integral_arg integral_var s =
     (case smp of (x, px, fx) \<Rightarrow>
        (case shape0 x of
           Inl e \<Rightarrow> (Inl e, s)
         | Inr n \<Rightarrow>
             (case error_of_variance integral_var n of
                Inl e \<Rightarrow> (Inl e, s)
              | Inr err \<Rightarrow>
                  (Inr (), s\<lparr>integration_history := integration_history s @
                     [\<lparr>integral = integral_arg, error = err, n_points = n,
                       phase = ''refine'', training_record = None\<rparr>]\<rparr>))))"

section \<open>Construction of the two integrators\<close>

text \<open>
  The keyword arguments of the constructors. \<open>None\<close> is Python's \<open>None\<close> for the
  phase-specific counts; for \<open>n_iter\<close>, \<open>n_points\<close>, \<open>use_survey\<close> and
  \<open>trainer_verbosity\<close> it means that the caller omitted the argument, so that the
  default of the signature applies. The logging verbosity handed to the base class does
  not reach any attribute modelled here.
\<close>

record init_kwargs =
  kw_n_iter :: "int option"
  kw_n_iter_survey :: "int option"
  kw_n_iter_refine :: "int option"
  kw_n_points :: "int option"
  kw_n_points_survey :: "int option"
  kw_n_points_refine :: "int option"
  kw_use_survey :: "bool option"
  kw_trainer_verbosity :: "int option option"

text \<open>
  \<open>PosteriorSurveySamplingIntegrator.__init__\<close>. The trainer's \<open>set_verbosity\<close> is a
  parameter; \<open>tv_default\<close> is the default of \<open>trainer_verbosity\<close> in the signature of
  the class being constructed.
\<close>

definition posterior_survey_init ::
  "(int option \<Rightarrow> 'tr \<Rightarrow> 'tr) \<Rightarrow> int option \<Rightarrow> (tensor \<Rightarrow> error + tensor) \<Rightarrow> 'tr \<Rightarrow> 'po \<Rightarrow>
   init_kwargs \<Rightarrow> ('tr, 'po, 'r) integrator" where
  "posterior_survey_init set_verbosity tv_default g trainer post kw =
     (let n_iter = (case kw_n_iter kw of None \<Rightarrow> 10 | Some n \<Rightarrow> n);
          n_pts = (case kw_n_points kw of None \<Rightarrow> 100000 | Some n \<Rightarrow> n);
          trainer_verbosity =
            (case kw_trainer_verbosity kw of None \<Rightarrow> tv_default | Some v \<Rightarrow> v)
      in \<lparr>self_f = g,
          model_trainer = set_verbosity trainer_verbosity trainer,
          posterior = post,
          n_iter_survey = (case kw_n_iter_survey kw of Some n \<Rightarrow> n | None \<Rightarrow> n_iter),
          n_iter_refine = (case kw_n_iter_refine kw of Some n \<Rightarrow> n | None \<Rightarrow> n_iter),
          n_points_survey = (case kw_n_points_survey kw of Some n \<Rightarrow> n | None \<Rightarrow> n_pts),
          n_points_refine = (case kw_n_points_refine kw of Some n \<Rightarrow> n | None \<Rightarrow> n_pts),
          use_survey = (case kw_use_survey kw of None \<Rightarrow> False | Some b \<Rightarrow> b),
          integration_history = empty_history,
          self_d = None\<rparr>)"

definition PosteriorSurveySamplingIntegrator ::
  "(int option \<Rightarrow> 'tr \<Rightarrow> 'tr) \<Rightarrow> (tensor \<Rightarrow> error + tensor) \<Rightarrow> 'tr \<Rightarrow> 'po \<Rightarrow>
   init_kwargs \<Rightarrow> ('tr, 'po, 'r) integrator" where
  "PosteriorSurveySamplingIntegrator set_verbosity g trainer post kw =
     posterior_survey_init set_verbosity None g trainer post kw"

text \<open>
  \<open>FlatSurveySamplingIntegrator.__init__\<close>: builds \<open>UniformSampler(d=d, device=device)\<close>,
  an external class taken as the parameter \<open>uniform_sampler\<close>, runs the constructor of the
  parent class with it as the posterior, then sets the attribute \<open>d\<close>. Its signature
  defaults \<open>trainer_verbosity\<close> to 1.
\<close>

definition FlatSurveySamplingIntegrator ::
  "(int option \<Rightarrow> 'tr \<Rightarrow> 'tr) \<Rightarrow> (int \<Rightarrow> 'po) \<Rightarrow> (tensor \<Rightarrow> error + tensor) \<Rightarrow> 'tr \<Rightarrow> int \<Rightarrow>
   init_kwargs \<Rightarrow> ('tr, 'po, 'r) integrator" where
  "FlatSurveySamplingIntegrator set_verbosity uniform_sampler g trainer d kw =
     (posterior_survey_init set_verbosity (Some 1) g trainer (uniform_sampler d) kw)
       \<lparr>self_d := Some d\<rparr>"

section \<open>The benchmark integrands\<close>

subsection \<open>The abstract integrand and its shape check\<close>

fun show_nat :: "nat \<Rightarrow> string" where
  "show_nat n =
     (if n < 10 then [char_of (48 + n)]
      else show_nat (n div 10) @ [char_of (48 + n mod 10)])"

declare show_nat.simps [simp del]

definition show_int :: "int \<Rightarrow> string" where
  "show_int i = (if i < 0 then CHR ''-'' # show_nat (nat (- i)) else show_nat (nat i))"

definition shape_mismatch :: "int \<Rightarrow> error" where
  "shape_mismatch d =
     AssertionError (''Shape mismatch, expected ('' @ ''*, '' @ show_int d @ '')'')"

text \<open>\<open>Integrand.__call__\<close>, with the subclass's \<open>evaluate_integrand\<close> as argument.\<close>

definition integrand_call ::
  "int \<Rightarrow> (tensor \<Rightarrow> error + 'a) \<Rightarrow> tensor \<Rightarrow> error + 'a" where
  "integrand_call d evaluate_integrand x =
     (if length (shape x) \<noteq> 2 then Inl (shape_mismatch d)
      else if int (shape x ! 1) \<noteq> d then Inl (shape_mismatch d)
      else evaluate_integrand x)"

subsection \<open>The hyperrectangle\<close>

text \<open>\<open>x[:, k]\<close> for a Python integer \<open>k\<close>: a negative index counts from the last column.\<close>

fun select_column :: "tensor \<Rightarrow> int \<Rightarrow> error + real list" where
  "select_column (T2 c rs) k =
     (let j = (if k < 0 then int c + k else k)
      in if 0 \<le> j \<and> j < int c then Inr (map (\<lambda>r. r ! nat j) rs) else Inl IndexError)"
| "select_column t k = Inl IndexError"

text \<open>\<open>VolumeIntegrand.evaluate_integrand\<close>: the boolean tensor of the inequality, cast to
  the floating type of the input.\<close>

definition to_dtype :: "bool list \<Rightarrow> tensor" where
  "to_dtype bs = T1 (map (\<lambda>b. if b then 1 else 0) bs)"

definition volume_evaluate_integrand ::
  "(tensor \<Rightarrow> error + bool list) \<Rightarrow> tensor \<Rightarrow> error + tensor" where
  "volume_evaluate_integrand inequality x =
     (case inequality x of Inl e \<Rightarrow> Inl e | Inr bs \<Rightarrow> Inr (to_dtype bs))"

text \<open>
  In \<open>x[:, split_dim] < frac\<close> the right-hand side is a Python number. Torch compares it
  in the floating type of the tensor: the number is first converted to that type, rounded
  to the nearest value the type has (ties to even, the subnormal range included, and
  infinite beyond the largest finite value). A floating type is given by the bits of its
  significand and the least and greatest exponents of its normal values.
\<close>

datatype dtype = Float16 | BFloat16 | Float32 | Float64

fun significand_bits :: "dtype \<Rightarrow> int" where
  "significand_bits Float16 = 11"
| "significand_bits BFloat16 = 8"
| "significand_bits Float32 = 24"
| "significand_bits Float64 = 53"

fun min_exponent :: "dtype \<Rightarrow> int" where
  "min_exponent Float16 = - 14"
| "min_exponent BFloat16 = - 126"
| "min_exponent Float32 = - 126"
| "min_exponent Float64 = - 1022"

fun max_exponent :: "dtype \<Rightarrow> int" where
  "max_exponent Float16 = 15"
| "max_exponent BFloat16 = 127"
| "max_exponent Float32 = 127"
| "max_exponent Float64 = 1023"

definition round_half_even :: "real \<Rightarrow> int" where
  "round_half_even y =
     (let q = \<lfloor>y\<rfloor>; r = y - of_int q
      in if r < 1 / 2 then q else if 1 / 2 < r then q + 1
         else if even q then q else q + 1)"

definition cast_to :: "dtype \<Rightarrow> real \<Rightarrow> npfloat" where
  "cast_to dt v =
     (if v = 0 then Finite 0
      else
        let e = max \<lfloor>log 2 \<bar>v\<bar>\<rfloor> (min_exponent dt);
            ulp = 2 powi (e - significand_bits dt + 1);
            r = of_int (round_half_even (v / ulp)) * ulp
        in if (2 - 2 powi (1 - significand_bits dt)) * 2 powi (max_exponent dt) < \<bar>r\<bar>
           then (if 0 < v then PosInf else NegInf)
           else Finite r)"

text \<open>\<open>v < w\<close> for a tensor entry \<open>v\<close> and a converted number \<open>w\<close>.\<close>

fun less_np :: "real \<Rightarrow> npfloat \<Rightarrow> bool" where
  "less_np v (Finite w) = (v < w)"
| "less_np v PosInf = True"
| "less_np v NegInf = False"
| "less_np v NaN = False"

record hyperrectangle =
  hr_d :: int
  hr_split_dim :: int
  hr_frac :: real

text \<open>The constructor; an omitted \<open>split_dim\<close> is 0 and an omitted \<open>frac\<close> is 0.5.\<close>

definition HyperrectangleVolumeIntegrand ::
  "int \<Rightarrow> int option \<Rightarrow> real option \<Rightarrow> error + hyperrectangle" where
  "HyperrectangleVolumeIntegrand d split_dim_arg frac_arg =
     (let split_dim = (case split_dim_arg of None \<Rightarrow> 0 | Some k \<Rightarrow> k);
          frac = (case frac_arg of None \<Rightarrow> 1 / 2 | Some v \<Rightarrow> v)
      in if \<not> (0 \<le> split_dim \<and> split_dim < d) then Inl (AssertionError [])
         else if \<not> (0 \<le> frac \<and> frac \<le> 1) then Inl (AssertionError [])
         else Inr \<lparr>hr_d = d, hr_split_dim = split_dim, hr_frac = frac\<rparr>)"

definition hyperrectangle_integral :: "hyperrectangle \<Rightarrow> real" where
  "hyperrectangle_integral h = hr_frac h"

text \<open>
  The methods that evaluate the integrand take the floating type \<open>dt\<close> of the batch
  \<open>x\<close>, which the model of a tensor does not carry.
\<close>

definition hyperrectangle_inequality ::
  "dtype \<Rightarrow> hyperrectangle \<Rightarrow> tensor \<Rightarrow> error + bool list" where
  "hyperrectangle_inequality dt h x =
     (case select_column x (hr_split_dim h) of
        Inl e \<Rightarrow> Inl e
      | Inr col \<Rightarrow> Inr (map (\<lambda>v. less_np v (cast_to dt (hr_frac h))) col))"

definition hyperrectangle_evaluate_integrand ::
  "dtype \<Rightarrow> hyperrectangle \<Rightarrow> tensor \<Rightarrow> error + tensor" where
  "hyperrectangle_evaluate_integrand dt h x =
     volume_evaluate_integrand (hyperrectangle_inequality dt h) x"

definition hyperrectangle_call :: "dtype \<Rightarrow> hyperrectangle \<Rightarrow> tensor \<Rightarrow> error + tensor" where
  "hyperrectangle_call dt h x =
     integrand_call (hr_d h) (hyperrectangle_evaluate_integrand dt h) x"

subsection \<open>The diagonal gaussian, defined twice\<close>

text \<open>
  Arithmetic between tensors broadcasts: the trailing axes are aligned, two sizes are
  compatible when they are equal or one of them is 1, and the result has the larger rank.
  For tensors of rank at most two this is computed on rows: a 0-d tensor is one row of
  one entry and a vector is one row.
\<close>

fun as_rows :: "'a gtensor \<Rightarrow> 'a list list" where
  "as_rows (T0 v) = [[v]]"
| "as_rows (T1 vs) = [vs]"
| "as_rows (T2 c rs) = rs"

fun n_columns :: "'a gtensor \<Rightarrow> nat" where
  "n_columns (T0 v) = 1"
| "n_columns (T1 vs) = length vs"
| "n_columns (T2 c rs) = c"

definition broadcast_dim :: "nat \<Rightarrow> nat \<Rightarrow> nat option" where
  "broadcast_dim a b =
     (if a = b then Some a else if a = 1 then Some b else if b = 1 then Some a else None)"

definition expand :: "nat \<Rightarrow> 'a list \<Rightarrow> 'a list" where
  "expand n xs = (if length xs = n then xs else replicate n (hd xs))"

fun of_rows :: "nat \<Rightarrow> nat \<Rightarrow> 'a list list \<Rightarrow> 'a gtensor" where
  "of_rows 0 c rs = T0 (hd (hd rs))"
| "of_rows (Suc 0) c rs = T1 (hd rs)"
| "of_rows k c rs = T2 c rs"

definition broadcast_op ::
  "('a \<Rightarrow> 'b \<Rightarrow> 'c) \<Rightarrow> 'a gtensor \<Rightarrow> 'b gtensor \<Rightarrow> error + 'c gtensor" where
  "broadcast_op opr a b =
     (case (broadcast_dim (length (as_rows a)) (length (as_rows b)),
            broadcast_dim (n_columns a) (n_columns b)) of
        (Some n, Some c) \<Rightarrow>
          Inr (of_rows (max (length (shape a)) (length (shape b))) c
                 (map2 (\<lambda>r1 r2. map2 opr (expand c r1) (expand c r2))
                    (expand n (as_rows a)) (expand n (as_rows b))))
      | _ \<Rightarrow> Inl RuntimeError)"

text \<open>\<open>t.sum(axis=1)\<close>: only a matrix has a second axis.\<close>

fun sum_axis1 :: "npfloat gtensor \<Rightarrow> error + npfloat gtensor" where
  "sum_axis1 (T2 c rs) = Inr (T1 (map np_sum rs))"
| "sum_axis1 t = Inl IndexError"

definition bind_error :: "error + 'a \<Rightarrow> ('a \<Rightarrow> error + 'b) \<Rightarrow> error + 'b" where
  "bind_error m k = (case m of Inl e \<Rightarrow> Inl e | Inr v \<Rightarrow> k v)"

text \<open>
  \<open>sanitize_variable\<close> turns a number or an array into a tensor and copies a tensor; on
  the values of the model, which are tensors already, it is the identity.
\<close>

definition sanitize_variable :: "tensor \<Rightarrow> tensor" where
  "sanitize_variable x = x"

record diagonal_gaussian =
  gauss_d :: int
  gauss_mu :: tensor
  gauss_s :: tensor
  gauss_norm :: tensor

text \<open>
  The constructor, the same in both files; omitted arguments are \<open>mu = 0.5\<close>,
  \<open>s = 0.1\<close> and \<open>norm = 1\<close>.
\<close>

definition DiagonalGaussianIntegrand ::
  "int \<Rightarrow> tensor option \<Rightarrow> tensor option \<Rightarrow> tensor option \<Rightarrow> error + diagonal_gaussian" where
  "DiagonalGaussianIntegrand d mu_arg s_arg norm_arg =
     (let mu = sanitize_variable (case mu_arg of None \<Rightarrow> T0 (1 / 2) | Some t \<Rightarrow> t);
          sd = sanitize_variable (case s_arg of None \<Rightarrow> T0 (1 / 10) | Some t \<Rightarrow> t);
          nrm = sanitize_variable (case norm_arg of None \<Rightarrow> T0 1 | Some t \<Rightarrow> t)
      in if \<not> (length (shape mu) = 0 \<or> map int (shape mu) = [d]) then Inl (AssertionError [])
         else if \<not> (length (shape sd) = 0 \<or> map int (shape sd) = [d]) then Inl (AssertionError [])
         else if \<not> (length (shape nrm) = 0) then Inl (AssertionError [])
         else Inr \<lparr>gauss_d = d, gauss_mu = mu, gauss_s = sd, gauss_norm = nrm\<rparr>)"

text \<open>
  \<open>DiagonalGaussianIntegrand.evaluate_integrand\<close> of \<open>utils/integrands.py\<close>. The
  division by \<open>s\<close> is the float division of torch, so the entries that follow it may be
  infinite or \<open>nan\<close>.
\<close>

definition evaluate_integrand_integrands_py ::
  "diagonal_gaussian \<Rightarrow> tensor \<Rightarrow> error + npfloat gtensor" where
  "evaluate_integrand_integrands_py g x =
     bind_error (broadcast_op (-) x (gauss_mu g)) (\<lambda>diff.
     bind_error (broadcast_op np_div diff (gauss_s g)) (\<lambda>quot.
     bind_error (sum_axis1 (tmap np_square quot)) (\<lambda>total.
     broadcast_op np_scale (gauss_norm g) (tmap np_exp_neg total))))"

text \<open>\<open>DiagonalGaussianIntegrand.evaluate_integrand\<close> of \<open>utils/integrands/gaussian.py\<close>.\<close>

definition evaluate_integrand_gaussian_py ::
  "diagonal_gaussian \<Rightarrow> tensor \<Rightarrow> error + npfloat gtensor" where
  "evaluate_integrand_gaussian_py g x =
     bind_error (broadcast_op (-) x (gauss_mu g)) (\<lambda>diff.
     bind_error (broadcast_op np_div diff (gauss_s g)) (\<lambda>quot.
     bind_error (sum_axis1 (tmap np_square quot)) (\<lambda>total.
     broadcast_op np_scale (gauss_norm g) (tmap np_exp_neg total))))"

section \<open>The parts of the repository that the sources do not contain\<close>

subsection \<open>The driver\<close>








subsection \<open>The uniform posterior\<close>

text \<open>
  Modelled from the spec: \<open>UniformSampler\<close> (\<open>zunis.models.flows.sampling\<close>) and
  \<open>BasicStatefulTrainer.generate_target_batch_from_posterior\<close> are missing from the
  sources. By sections 4.2, 4.3 and 6 of the specification a posterior draws points and
  reports its density at each of them, the uniform variant is a fixed distribution over
  the hypercube with density 1 everywhere, and a target batch is the triple
  \<open>(x, p(x), f(x))\<close>. The random draw is the field \<open>pm_draw\<close>: the points that a
  request for \<open>n\<close> points yields.
\<close>

record posterior_model =
  pm_density :: "real list \<Rightarrow> real"
  pm_draw :: "int \<Rightarrow> tensor"

definition UniformSampler :: "(int \<Rightarrow> tensor) \<Rightarrow> int \<Rightarrow> posterior_model" where
  "UniformSampler draw d = \<lparr>pm_density = (\<lambda>p. 1), pm_draw = draw\<rparr>"

definition generate_target_batch_from_posterior ::
  "int \<Rightarrow> (tensor \<Rightarrow> error + tensor) \<Rightarrow> posterior_model \<Rightarrow> (error + sample) \<times> posterior_model" where
  "generate_target_batch_from_posterior n g po =
     (let x = pm_draw po n
      in case g x of
           Inl e \<Rightarrow> (Inl e, po)
         | Inr fx \<Rightarrow> (Inr (x, T1 (map (pm_density po) (as_rows x)), fx), po))"

section \<open>The formulas of the specification and example objects\<close>

text \<open>
  The pooled estimate in the words of the specification:
  \<open>value = \<Sum>(integral\<^sub>i \<sqdot> n\<^sub>i) / \<Sum>(n\<^sub>i)\<close> and
  \<open>error = sqrt(\<Sum>((error\<^sub>i \<sqdot> n\<^sub>i)\<^sup>2)) / \<Sum>(n\<^sub>i)\<close>, the division being numpy's.
\<close>

definition pooled_value :: "'r history_row list \<Rightarrow> npfloat" where
  "pooled_value recs =
     np_div (\<Sum>r\<leftarrow>recs. integral r * real (n_points r)) (real (\<Sum>r\<leftarrow>recs. n_points r))"

definition pooled_error :: "'r history_row list \<Rightarrow> npfloat" where
  "pooled_error recs =
     np_div (sqrt (\<Sum>r\<leftarrow>recs. (error r * real (n_points r))\<^sup>2))
       (real (\<Sum>r\<leftarrow>recs. n_points r))"

text \<open>An integrator whose collaborators are trivial, around a given history.\<close>

definition example_integrator :: "unit history_row list \<Rightarrow> (unit, unit, unit) integrator" where
  "example_integrator h =
     \<lparr>self_f = Inr, model_trainer = (), posterior = (), n_iter_survey = 10,
      n_iter_refine = 10, n_points_survey = 100000, n_points_refine = 100000,
      use_survey = False, integration_history = h, self_d = None\<rparr>"

text \<open>The two iterations of the specification's example.\<close>

definition example_rows :: "unit history_row list" where
  "example_rows =
     [\<lparr>integral = 1, error = 1 / 10, n_points = 100, phase = ''survey'',
       training_record = Some ()\<rparr>,
      \<lparr>integral = 2, error = 2 / 10, n_points = 300, phase = ''refine'',
       training_record = None\<rparr>]"

text \<open>A single refine iteration of four billion points.\<close>

definition wrap_rows :: "unit history_row list" where
  "wrap_rows =
     [\<lparr>integral = 1, error = 1 / 10, n_points = 4000000000, phase = ''refine'',
       training_record = None\<rparr>]"

text \<open>A batch of two points of the unit interval.\<close>

definition example_batch :: tensor where
  "example_batch = T2 1 [[1 / 2], [1 / 4]]"

text \<open>A generator whose posterior reports density zero at the first point it draws.\<close>

definition zero_density_gen ::
  "int \<Rightarrow> (tensor \<Rightarrow> error + tensor) \<Rightarrow> unit \<Rightarrow> (error + sample) \<times> unit" where
  "zero_density_gen n g po =
     (case g example_batch of
        Inl e \<Rightarrow> (Inl e, po)
      | Inr fx \<Rightarrow> (Inr (example_batch, T1 [0, 1], fx), po))"

text \<open>A trainer whose \<open>sample_forward\<close> returns the two points with log-density 0.\<close>

definition example_sf :: "unit \<Rightarrow> int \<Rightarrow> (error + tensor) \<times> unit" where
  "example_sf tr n = (Inr (T2 2 [[1 / 2, 0], [1 / 4, 0]]), tr)"

text \<open>An integrand that returns no value at all, whatever the batch.\<close>

definition empty_values :: "tensor \<Rightarrow> error + tensor" where
  "empty_values x = Inr (T1 [])"



text \<open>A flat integrator of one iteration per phase, and the history its run records.\<close>

definition example_kwargs :: init_kwargs where
  "example_kwargs =
     \<lparr>kw_n_iter = Some 1, kw_n_iter_survey = None, kw_n_iter_refine = None,
      kw_n_points = Some 2, kw_n_points_survey = None, kw_n_points_refine = None,
      kw_use_survey = None, kw_trainer_verbosity = None\<rparr>"

definition example_flat :: "(unit, posterior_model, unit) integrator" where
  "example_flat =
     FlatSurveySamplingIntegrator (\<lambda>v tr. tr) (UniformSampler (\<lambda>n. example_batch)) Inr () 1
       example_kwargs"


text \<open>
  The gaussian in closed form, \<open>norm \<sqdot> exp(- \<Sum>\<^sub>j ((x\<^sub>j - mu\<^sub>j) / s\<^sub>j)\<^sup>2)\<close> at a point \<open>x\<close>;
  \<open>param_at p j\<close> is the entry of a parameter that meets column \<open>j\<close>: the parameter
  itself when it is a number, its entry \<open>j\<close> when it is a vector.
\<close>

fun param_at :: "tensor \<Rightarrow> nat \<Rightarrow> real" where
  "param_at (T0 v) j = v"
| "param_at (T1 vs) j = vs ! j"
| "param_at (T2 c rs) j = hd rs ! j"

definition gaussian_value :: "diagonal_gaussian \<Rightarrow> real list \<Rightarrow> npfloat" where
  "gaussian_value g r =
     np_scale (param_at (gauss_norm g) 0)
       (np_exp_neg (np_sum (map (\<lambda>j. np_square
          (np_div (r ! j - param_at (gauss_mu g) j) (param_at (gauss_s g) j)))
          [0..<length r])))"

section \<open>Verified properties\<close>

subsection \<open>Pooling\<close>

lemma weighted_sum_zero:
  "(\<Sum>r\<leftarrow>recs. n_points r) = 0 \<Longrightarrow> (\<Sum>r\<leftarrow>recs. g r * real (n_points r)) = 0"
  by (induction recs) auto

lemma weighted_square_sum_zero:
  "(\<Sum>r\<leftarrow>recs. n_points r) = 0 \<Longrightarrow> (\<Sum>r\<leftarrow>recs. (g r * real (n_points r))\<^sup>2) = 0"
  by (induction recs) auto

lemma square_sum_nonneg: "0 \<le> (\<Sum>r\<leftarrow>recs. (g r :: real)\<^sup>2)"
  by (induction recs) auto

lemma int64_id: "- (2 ^ 63) \<le> i \<Longrightarrow> i < 2 ^ 63 \<Longrightarrow> int64 i = i"
  by (simp add: int64_def)

lemma int64_0: "int64 0 = 0"
  by (simp add: int64_def)

lemma square_below_wrap:
  assumes "0 \<le> (i::int)" and "i < 3037000500"
  shows "int64 (i * i) = i * i"
proof -
  have "i * i \<le> 3037000499 * 3037000499"
    using assms by (intro mult_mono) auto
  then have b: "i * i < 2 ^ 63" by simp
  have a: "- (2 ^ 63) \<le> i * i"
    by (rule order_trans [OF _ zero_le_square]) simp
  show ?thesis by (rule int64_id [OF a b])
qed

lemma int_sum_n_points: "(\<Sum>r\<leftarrow>recs. int (n_points r)) = int (\<Sum>r\<leftarrow>recs. n_points r)"
  by (induction recs) auto

lemma np_sqrt_div_square:
  assumes "0 \<le> S" and "0 < N"
  shows "np_sqrt (np_div S (N\<^sup>2)) = np_div (sqrt S) N"
proof -
  have "sqrt (S / N\<^sup>2) = sqrt S / N"
    using assms by (simp add: real_sqrt_divide)
  moreover have "\<not> S / N\<^sup>2 < 0"
    using assms by (simp add: not_less)
  ultimately show ?thesis
    using assms by (simp add: np_div_def)
qed

text \<open>Below the wrap-around the count and its square are the integers themselves.\<close>

lemma pooled_count_code:
  assumes "(\<Sum>r\<leftarrow>recs. n_points r) < 3037000500"
  shows "int64 (\<Sum>r\<leftarrow>recs. int (n_points r)) = int (\<Sum>r\<leftarrow>recs. n_points r)"
    and "real_of_int (int64 (int64 (\<Sum>r\<leftarrow>recs. int (n_points r))
           * int64 (\<Sum>r\<leftarrow>recs. int (n_points r)))) = (real (\<Sum>r\<leftarrow>recs. n_points r))\<^sup>2"
proof -
  let ?N = "int (\<Sum>r\<leftarrow>recs. n_points r)"
  have lo: "0 \<le> ?N" by simp
  have hi: "?N < 3037000500" using assms by linarith
  have a: "- (2 ^ 63) \<le> ?N"
    by (rule order_trans [OF _ lo]) simp
  have b: "?N < 2 ^ 63" using hi by simp
  show n: "int64 (\<Sum>r\<leftarrow>recs. int (n_points r)) = ?N"
    unfolding int_sum_n_points by (rule int64_id [OF a b])
  have "int64 (?N * ?N) = ?N * ?N"
    by (rule square_below_wrap [OF lo hi])
  then show "real_of_int (int64 (int64 (\<Sum>r\<leftarrow>recs. int (n_points r))
           * int64 (\<Sum>r\<leftarrow>recs. int (n_points r)))) = (real (\<Sum>r\<leftarrow>recs. n_points r))\<^sup>2"
    unfolding n by (simp add: power2_eq_square)
qed

lemma pooled_error_code:
  assumes "(\<Sum>r\<leftarrow>recs. n_points r) < 3037000500"
  shows "np_sqrt (np_div (\<Sum>r\<leftarrow>recs. (error r * real (n_points r))\<^sup>2)
           (real_of_int (int64 (int64 (\<Sum>r\<leftarrow>recs. int (n_points r))
              * int64 (\<Sum>r\<leftarrow>recs. int (n_points r)))))) = pooled_error recs"
proof (cases "(\<Sum>r\<leftarrow>recs. n_points r) = 0")
  case True
  then show ?thesis
    unfolding pooled_count_code(2) [OF assms]
    by (simp add: pooled_error_def np_div_def weighted_square_sum_zero)
next
  case False
  then have "0 < (\<Sum>r\<leftarrow>recs. n_points r)"
    by (rule_tac neq0_conv [THEN iffD1])
  then have "0 < real (\<Sum>r\<leftarrow>recs. n_points r)"
    by (simp only: of_nat_0_less_iff)
  then show ?thesis
    unfolding pooled_error_def pooled_count_code(2) [OF assms]
    by (rule np_sqrt_div_square [OF square_sum_nonneg])
qed

text \<open>
  Below a pooled count of 3037000500 points the result is the pooled estimate of the
  specification.
\<close>

lemma finalize_integration_below_wrap:
  assumes "us = (case u of None \<Rightarrow> use_survey s | Some b \<Rightarrow> b)"
    and "data = (if us then integration_history s
                 else filter (\<lambda>r. phase r = ''refine'') (integration_history s))"
    and "(\<Sum>r\<leftarrow>data. n_points r) < 3037000500"
  shows "finalize_integration u s = (pooled_value data, pooled_error data, integration_history s)"
proof -
  have d: "selected_data us (integration_history s) = data"
    using assms(2) by (simp add: selected_data_def)
  show ?thesis
    using pooled_error_code [OF assms(3)] pooled_count_code(1) [OF assms(3)] d
      assms(1) [symmetric]
    by (simp add: finalize_integration_def Let_def pooled_value_def)
qed

lemma np_div_pos: "0 < b \<Longrightarrow> np_div a b = Finite (a / b)"
  by (simp add: np_div_def)

lemma pooled_finite:
  assumes "0 < (\<Sum>r\<leftarrow>recs. n_points r)"
  shows "pooled_value recs =
          Finite ((\<Sum>r\<leftarrow>recs. integral r * real (n_points r)) / real (\<Sum>r\<leftarrow>recs. n_points r))"
    and "pooled_error recs =
          Finite (sqrt (\<Sum>r\<leftarrow>recs. (error r * real (n_points r))\<^sup>2)
                  / real (\<Sum>r\<leftarrow>recs. n_points r))"
proof -
  have "0 < real (\<Sum>r\<leftarrow>recs. n_points r)"
    using assms by (simp only: of_nat_0_less_iff)
  then show "pooled_value recs =
          Finite ((\<Sum>r\<leftarrow>recs. integral r * real (n_points r)) / real (\<Sum>r\<leftarrow>recs. n_points r))"
    and "pooled_error recs =
          Finite (sqrt (\<Sum>r\<leftarrow>recs. (error r * real (n_points r))\<^sup>2)
                  / real (\<Sum>r\<leftarrow>recs. n_points r))"
    unfolding pooled_value_def pooled_error_def by (rule np_div_pos)+
qed

lemma finalize_integration_example:
  "finalize_integration (Some True) (example_integrator example_rows) =
     (Finite (7 / 4), Finite (sqrt 3700 / 400), example_rows)"
proof -
  have "finalize_integration (Some True) (example_integrator example_rows) =
      (pooled_value example_rows, pooled_error example_rows,
       integration_history (example_integrator example_rows))"
    by (rule finalize_integration_below_wrap [where us = True])
      (simp_all add: example_integrator_def example_rows_def)
  then show ?thesis
    by (simp add: pooled_value_def pooled_error_def np_div_def example_integrator_def
        example_rows_def power2_eq_square)
qed

text \<open>
  C1. The claim holds of the pooled formulas and fails of the code where the point count
  wraps around: for one refine iteration of \<open>4 \<sqdot> 10\<^sup>9\<close> points with error 0.1 the
  specification gives the error 0.1, and \<open>finalize_integration\<close> returns the value 1 and
  the error \<open>nan\<close>, the square of the count being the \<open>int64\<close>
  \<open>-2446744073709551616\<close>.
\<close>

theorem finalize_integration_wraps:
  "finalize_integration (Some True) (example_integrator wrap_rows) =
     (Finite 1, NaN, wrap_rows)
   \<and> pooled_error wrap_rows = Finite (1 / 10)"
proof -
  have n: "int64 4000000000 = 4000000000"
    by (simp add: int64_def)
  have sq: "int64 16000000000000000000 = - 2446744073709551616"
    by (simp add: int64_def)
  have e: "sqrt ((4000000000 / 10)\<^sup>2) = 4000000000 / 10"
    by (rule real_sqrt_unique) simp_all
  show ?thesis
    using e by (simp add: finalize_integration_def selected_data_def example_integrator_def
        wrap_rows_def n sq np_div_def pooled_error_def Let_def)
qed

text \<open>
  C5, as stated, fails: there is no \<open>EmptyHistoryError\<close>. With a history that is empty,
  and with a history of survey records only pooled without the survey, the call returns
  \<open>nan\<close> twice and the history.
\<close>

theorem finalize_integration_empty_counterexample:
  "finalize_integration None (example_integrator []) = (NaN, NaN, [])
   \<and> finalize_integration (Some False)
       (example_integrator
          [\<lparr>integral = 1, error = 1 / 10, n_points = 100, phase = ''survey'',
            training_record = Some ()\<rparr>]) =
     (NaN, NaN,
      [\<lparr>integral = 1, error = 1 / 10, n_points = 100, phase = ''survey'',
        training_record = Some ()\<rparr>])"
  by (simp add: finalize_integration_def selected_data_def example_integrator_def np_div_def
      int64_0)

text \<open>
  C5, amended. \<open>finalize_integration\<close> checks nothing: whenever the records it selects
  hold no point at all, in particular when it selects no record, it returns \<open>nan\<close> for
  the value and for the error, together with the history.
\<close>

theorem finalize_integration_empty:
  assumes "us = (case u of None \<Rightarrow> use_survey s | Some b \<Rightarrow> b)"
    and "(\<Sum>r\<leftarrow>(if us then integration_history s
               else filter (\<lambda>r. phase r = ''refine'') (integration_history s)). n_points r) = 0"
  shows "finalize_integration u s = (NaN, NaN, integration_history s)"
proof -
  let ?data = "selected_data us (integration_history s)"
  have z: "(\<Sum>r\<leftarrow>?data. n_points r) = 0"
    using assms(2) by (simp add: selected_data_def)
  have t: "int64 (\<Sum>r\<leftarrow>?data. int (n_points r)) = 0"
    unfolding int_sum_n_points z by (simp add: int64_0)
  show ?thesis
    unfolding finalize_integration_def Let_def assms(1) [symmetric] t
      weighted_sum_zero [OF z] weighted_square_sum_zero [OF z]
    by (simp add: np_div_def int64_0)
qed

theorem finalize_integration_empty_witness:
  "finalize_integration (Some True) (example_integrator []) = (NaN, NaN, [])"
  using finalize_integration_empty [where us = True and u = "Some True"
      and s = "example_integrator []"]
  by (simp add: example_integrator_def)

subsection \<open>Recording\<close>

text \<open>
  C4. For a sample whose points \<open>x\<close> have \<open>n = x.shape[0] > 0\<close> rows and a variance that
  is not negative, \<open>process_survey_step\<close> and \<open>process_refine_step\<close> each append exactly
  one record: the given integral, the error \<open>sqrt(variance / n)\<close>, which is not negative,
  \<open>n\<close> points, and the phase \<open>survey\<close> with the training record, respectively the phase
  \<open>refine\<close> without one.
\<close>

theorem process_steps_record:
  assumes "shape0 x = Inr n" and "0 < n" and "0 \<le> integral_var"
  shows "process_survey_step (x, px, fx) integral_arg integral_var training_rec s =
           (Inr (), s\<lparr>integration_history := integration_history s @
              [\<lparr>integral = integral_arg, error = sqrt (integral_var / real n), n_points = n,
                phase = ''survey'', training_record = Some training_rec\<rparr>]\<rparr>)
         \<and> process_refine_step (x, px, fx) integral_arg integral_var s =
           (Inr (), s\<lparr>integration_history := integration_history s @
              [\<lparr>integral = integral_arg, error = sqrt (integral_var / real n), n_points = n,
                phase = ''refine'', training_record = None\<rparr>]\<rparr>)
         \<and> 0 \<le> sqrt (integral_var / real n)"
  using assms
  by (simp add: process_survey_step_def process_refine_step_def error_of_variance_def)

theorem process_steps_record_witness:
  "shape0 example_batch = Inr 2 \<and> (0::nat) < 2 \<and> (0::real) \<le> 8
   \<and> integration_history
        (snd (process_survey_step (example_batch, T1 [1, 1], T1 [3, 5]) 4 8 ()
                (example_integrator example_rows))) =
      example_rows @ [\<lparr>integral = 4, error = 2, n_points = 2, phase = ''survey'',
                        training_record = Some ()\<rparr>]
   \<and> integration_history
        (snd (process_refine_step (example_batch, T1 [1, 1], T1 [3, 5]) 4 8
                (example_integrator example_rows))) =
      example_rows @ [\<lparr>integral = 4, error = 2, n_points = 2, phase = ''refine'',
                        training_record = None\<rparr>]"
proof -
  have a: "shape0 example_batch = Inr 2" by (simp add: shape0_def example_batch_def)
  have b: "(0::nat) < 2" by simp
  have c: "(0::real) \<le> 8" by simp
  have d: "sqrt (8 / real 2) = 2"
    using real_sqrt_abs [of 2] by simp
  show ?thesis
    using process_steps_record [OF a b c, of "T1 [1, 1]" "T1 [3, 5]" 4 "()"
        "example_integrator example_rows"] a d
    by (simp add: example_integrator_def)
qed

subsection \<open>Sampling\<close>

text \<open>
  C3. Whatever the number of points asked for, when the trainer's \<open>sample_forward\<close>
  returns a matrix of \<open>d + 1\<close> columns and the integrand returns \<open>fx\<close> on its first \<open>d\<close>
  columns, \<open>sample_refine\<close> returns these columns as \<open>x\<close>, \<open>px = exp(- last column)\<close>
  entry by entry, every entry of which is positive, and \<open>fx\<close>. The integrator changes in
  its trainer only, which is left as \<open>sample_forward\<close> left it: the posterior is not
  updated. An omitted \<open>n_points\<close> is the refine batch size of the configuration and an
  omitted \<open>f\<close> the integrand given at construction.
\<close>

theorem sample_refine_result:
  assumes "sf (model_trainer s) (case n_arg of None \<Rightarrow> n_points_refine s | Some n \<Rightarrow> n) =
             (Inr (T2 (Suc d) rows), tr')"
    and "(case f_arg of None \<Rightarrow> self_f s | Some g \<Rightarrow> g) (T2 d (map (take d) rows)) = Inr fx"
  shows "sample_refine sf n_arg f_arg s =
           (Inr (T2 d (map (take d) rows), T1 (map (\<lambda>r. exp (- (r ! d))) rows), fx),
            s\<lparr>model_trainer := tr'\<rparr>)
         \<and> list_all (\<lambda>p. 0 < p) (map (\<lambda>r. exp (- (r ! d))) rows)
         \<and> posterior (snd (sample_refine sf n_arg f_arg s)) = posterior s
         \<and> sample_refine sf None f_arg s = sample_refine sf (Some (n_points_refine s)) f_arg s
         \<and> sample_refine sf n_arg None s = sample_refine sf n_arg (Some (self_f s)) s"
  using assms
  by (simp add: sample_refine_def exp_neg_def list_all_iff)

theorem sample_refine_result_witness:
  "sample_refine example_sf None None (example_integrator example_rows) =
     (Inr (T2 1 [[1 / 2], [1 / 4]], T1 [1, 1], T2 1 [[1 / 2], [1 / 4]]),
      example_integrator example_rows)"
  using sample_refine_result [of example_sf "example_integrator example_rows" None 1
      "[[1 / 2, 0], [1 / 4, 0]]" "()" None "T2 1 [[1 / 2], [1 / 4]]"]
  by (simp add: example_sf_def example_integrator_def)

text \<open>
  C2, as stated, fails: there is no \<open>DegenerateDensityError\<close>. A posterior that reports a
  zero density makes \<open>sample_survey\<close> return the batch with that density, and
  \<open>process_survey_step\<close> records the iteration of this batch.
\<close>

theorem degenerate_density_counterexample:
  "sample_survey zero_density_gen None None (example_integrator []) =
     (Inr (example_batch, T1 [0, 1], example_batch), example_integrator [])
   \<and> fst (process_survey_step (example_batch, T1 [0, 1], example_batch) 4 8 ()
            (example_integrator [])) = Inr ()"
  by (simp add: sample_survey_def zero_density_gen_def example_integrator_def
      process_survey_step_def shape0_def example_batch_def error_of_variance_def)

text \<open>
  C2, amended. The integrator does not inspect densities. \<open>sample_survey\<close> returns what
  the generator of the target batch returns; \<open>sample_refine\<close> returns the densities
  \<open>exp(- log-density)\<close> as it computes them; and the outcome of a process step does not
  depend on the densities of the sample.
\<close>

theorem densities_unchecked:
  "fst (sample_survey gen n_arg f_arg s) =
     fst (gen (case n_arg of None \<Rightarrow> n_points_survey s | Some n \<Rightarrow> n)
              (case f_arg of None \<Rightarrow> self_f s | Some g \<Rightarrow> g) (posterior s))
   \<and> process_survey_step (x, px, fx) i v t s = process_survey_step (x, px', fx) i v t s
   \<and> process_refine_step (x, px, fx) i v s = process_refine_step (x, px', fx) i v s
   \<and> (sf (model_trainer s) n = (Inr (T2 (Suc d) rows), tr')
        \<and> g (T2 d (map (take d) rows)) = Inr fx \<longrightarrow>
      fst (sample_refine sf (Some n) (Some g) s) =
        Inr (T2 d (map (take d) rows), T1 (map (\<lambda>r. exp (- (r ! d))) rows), fx))"
  by (simp add: sample_survey_def sample_refine_def process_survey_step_def
      process_refine_step_def exp_neg_def split: prod.splits)

theorem densities_unchecked_witness:
  "fst (sample_refine example_sf (Some 2) (Some Inr) (example_integrator [])) =
     Inr (T2 1 [[1 / 2], [1 / 4]], T1 [1, 1], T2 1 [[1 / 2], [1 / 4]])"
  using densities_unchecked [where s = "example_integrator []" and sf = example_sf and n = 2
      and d = 1 and rows = "[[1 / 2, 0], [1 / 4, 0]]" and tr' = "()" and g = Inr
      and fx = "T2 1 [[1 / 2], [1 / 4]]" and x = "T0 0" and px = "T0 0" and px' = "T0 0"
      and i = 0 and v = 0 and t = "()" and n_arg = None and f_arg = None
      and gen = zero_density_gen]
  by (simp add: example_sf_def example_integrator_def)

subsection \<open>Shapes\<close>

text \<open>
  C7, as stated, fails: there is no \<open>ShapeMismatchError\<close>. A sample of two points with
  one density and three integrand values is recorded by \<open>process_refine_step\<close>;
  \<open>sample_refine\<close> returns the sample of an integrand that yields no value for two
  points; and an \<open>Integrand\<close> of dimension 3 called on points of dimension 2 raises an
  \<open>AssertionError\<close>.
\<close>

theorem shape_mismatch_counterexample:
  "process_refine_step (example_batch, T1 [1], T1 [1, 2, 3]) 4 8 (example_integrator []) =
     (Inr (), example_integrator
        [\<lparr>integral = 4, error = 2, n_points = 2, phase = ''refine'', training_record = None\<rparr>])
   \<and> sample_refine example_sf None (Some empty_values) (example_integrator []) =
     (Inr (example_batch, T1 [1, 1], T1 []), example_integrator [])
   \<and> integrand_call 3 Inr (T2 2 [[1 / 2, 1 / 4]]) =
       Inl (AssertionError (''Shape mismatch, expected ('' @ ''*, 3)''))"
proof -
  have "sqrt (8 / real 2) = 2"
    using real_sqrt_abs [of 2] by simp
  moreover have "show_int 3 = ''3''"
    by code_simp
  ultimately show ?thesis
    by (simp add: process_refine_step_def shape0_def error_of_variance_def example_integrator_def
        sample_refine_def example_sf_def exp_neg_def integrand_call_def shape_mismatch_def
        example_batch_def empty_values_def)
qed

text \<open>
  C7, amended. An \<open>Integrand\<close> of dimension \<open>d\<close> called on a tensor that is not of shape
  \<open>(batch, d)\<close> fails at once with the \<open>AssertionError\<close> whose message starts with
  \<open>Shape mismatch\<close>, and evaluates the integrand otherwise. Neither \<open>sample_refine\<close>
  nor the process steps compare the sizes of the densities and of the integrand values
  with the points: \<open>sample_refine\<close> returns whatever value the integrand returns, and
  the outcome of a process step depends on the points only.
\<close>

theorem shape_checks:
  "(length (shape x) \<noteq> 2 \<or> int (shape x ! 1) \<noteq> d \<longrightarrow>
      integrand_call d ev x = Inl (shape_mismatch d))
   \<and> (length (shape x) = 2 \<and> int (shape x ! 1) = d \<longrightarrow> integrand_call d ev x = ev x)
   \<and> process_survey_step (y, px, fx) i v t s = process_survey_step (y, px', fx') i v t s
   \<and> process_refine_step (y, px, fx) i v s = process_refine_step (y, px', fx') i v s
   \<and> (sf (model_trainer s) (case n_arg of None \<Rightarrow> n_points_refine s | Some n \<Rightarrow> n) =
         (Inr (T2 (Suc c) rows), tr')
        \<and> (case f_arg of None \<Rightarrow> self_f s | Some g \<Rightarrow> g) (T2 c (map (take c) rows)) =
            Inr vals \<longrightarrow>
      sample_refine sf n_arg f_arg s =
        (Inr (T2 c (map (take c) rows), T1 (map (\<lambda>r. exp (- (r ! c))) rows), vals),
         s\<lparr>model_trainer := tr'\<rparr>))"
  by (auto simp: integrand_call_def process_survey_step_def process_refine_step_def
      sample_refine_def exp_neg_def)

theorem shape_checks_witness:
  "integrand_call 2 Inr (T1 [1 / 2, 1 / 4]) = Inl (shape_mismatch 2)
   \<and> integrand_call 2 Inr (T2 2 [[1 / 2, 1 / 4]]) = Inr (T2 2 [[1 / 2, 1 / 4]])
   \<and> sample_refine example_sf None (Some empty_values) (example_integrator []) =
       (Inr (T2 1 [[1 / 2], [1 / 4]], T1 [1, 1], T1 []), example_integrator [])"
  using shape_checks [where x = "T1 [1 / 2, 1 / 4]" and d = 2 and ev = Inr and y = "T0 0"
      and px = "T0 0" and fx = "T0 0" and px' = "T0 0" and fx' = "T0 0" and i = 0 and v = 0
      and t = "()" and s = "example_integrator []" and sf = example_sf and n_arg = None
      and f_arg = "Some empty_values" and c = 1 and rows = "[[1 / 2, 0], [1 / 4, 0]]"
      and tr' = "()" and vals = "T1 []"]
    shape_checks [where x = "T2 2 [[1 / 2, 1 / 4]]" and d = 2 and ev = Inr and y = "T0 0"
      and px = "T0 0" and fx = "T0 0" and px' = "T0 0" and fx' = "T0 0" and i = 0 and v = 0
      and t = "()" and s = "example_integrator []" and sf = example_sf and n_arg = None
      and f_arg = "Some empty_values" and c = 1 and rows = "[[1 / 2, 0], [1 / 4, 0]]"
      and tr' = "()" and vals = "T1 []"]
  by (simp add: example_sf_def empty_values_def example_integrator_def)

subsection \<open>The history during and across runs\<close>











subsection \<open>The flat integrator\<close>

text \<open>
  C8. A \<open>FlatSurveySamplingIntegrator\<close> is the \<open>PosteriorSurveySamplingIntegrator\<close> built
  with the uniform sampler of dimension \<open>d\<close> as its posterior (the trainer verbosity
  defaulting to 1), with the attribute \<open>d\<close> added. \<open>sample_refine\<close>, the two process
  steps and \<open>finalize_integration\<close> are the same functions for both and read neither the
  posterior nor \<open>d\<close>: on two integrators that differ in these only they return the same
  results and leave states that differ in these only. The survey sample of a flat
  integrator carries density 1 at every point and leaves the integrator as it was.
\<close>

theorem flat_integrator_inherits:
  fixes s :: "('tr, 'po, 'r) integrator"
  shows
  "(FlatSurveySamplingIntegrator sv us g tr d kw :: ('tr, 'po, 'r) integrator) =
     (PosteriorSurveySamplingIntegrator sv g tr (us d)
        (kw\<lparr>kw_trainer_verbosity :=
              Some (case kw_trainer_verbosity kw of None \<Rightarrow> Some 1 | Some v \<Rightarrow> v)\<rparr>))
       \<lparr>self_d := Some d\<rparr>
   \<and> sample_refine sf n_arg f_arg (s\<lparr>posterior := p, self_d := dd\<rparr>) =
       (fst (sample_refine sf n_arg f_arg s),
        (snd (sample_refine sf n_arg f_arg s))\<lparr>posterior := p, self_d := dd\<rparr>)
   \<and> process_survey_step smp i v t (s\<lparr>posterior := p, self_d := dd\<rparr>) =
       (fst (process_survey_step smp i v t s),
        (snd (process_survey_step smp i v t s))\<lparr>posterior := p, self_d := dd\<rparr>)
   \<and> process_refine_step smp i v (s\<lparr>posterior := p, self_d := dd\<rparr>) =
       (fst (process_refine_step smp i v s),
        (snd (process_refine_step smp i v s))\<lparr>posterior := p, self_d := dd\<rparr>)
   \<and> finalize_integration u (s\<lparr>posterior := p, self_d := dd\<rparr>) = finalize_integration u s
   \<and> (g (draw n) = Inr fx \<longrightarrow>
        sample_survey generate_target_batch_from_posterior (Some n) None
          (FlatSurveySamplingIntegrator sv (UniformSampler draw) g tr d kw) =
        (Inr (draw n, T1 (replicate (length (as_rows (draw n))) 1), fx),
         (FlatSurveySamplingIntegrator sv (UniformSampler draw) g tr d kw
            :: ('tr, posterior_model, 'r) integrator)))"
proof (intro conjI)
  show "sample_refine sf n_arg f_arg (s\<lparr>posterior := p, self_d := dd\<rparr>) =
       (fst (sample_refine sf n_arg f_arg s),
        (snd (sample_refine sf n_arg f_arg s))\<lparr>posterior := p, self_d := dd\<rparr>)"
    by (auto simp: sample_refine_def Let_def split: prod.splits sum.splits option.splits)
  show "process_survey_step smp i v t (s\<lparr>posterior := p, self_d := dd\<rparr>) =
       (fst (process_survey_step smp i v t s),
        (snd (process_survey_step smp i v t s))\<lparr>posterior := p, self_d := dd\<rparr>)"
    by (simp add: process_survey_step_def split: prod.splits sum.splits)
  show "process_refine_step smp i v (s\<lparr>posterior := p, self_d := dd\<rparr>) =
       (fst (process_refine_step smp i v s),
        (snd (process_refine_step smp i v s))\<lparr>posterior := p, self_d := dd\<rparr>)"
    by (simp add: process_refine_step_def split: prod.splits sum.splits)
  show "finalize_integration u (s\<lparr>posterior := p, self_d := dd\<rparr>) = finalize_integration u s"
    by (simp add: finalize_integration_def cong: option.case_cong)
  show "g (draw n) = Inr fx \<longrightarrow>
        sample_survey generate_target_batch_from_posterior (Some n) None
          (FlatSurveySamplingIntegrator sv (UniformSampler draw) g tr d kw) =
        (Inr (draw n, T1 (replicate (length (as_rows (draw n))) 1), fx),
         FlatSurveySamplingIntegrator sv (UniformSampler draw) g tr d kw)"
    by (simp add: sample_survey_def generate_target_batch_from_posterior_def
        FlatSurveySamplingIntegrator_def posterior_survey_init_def UniformSampler_def Let_def
        map_replicate_const)
qed (simp add: FlatSurveySamplingIntegrator_def PosteriorSurveySamplingIntegrator_def
      posterior_survey_init_def Let_def split: option.splits)

theorem flat_integrator_inherits_witness:
  "sample_survey generate_target_batch_from_posterior (Some 2) None example_flat =
     (Inr (example_batch, T1 [1, 1], example_batch), example_flat)"
  using flat_integrator_inherits [where g = Inr and draw = "\<lambda>n. example_batch" and n = 2
      and fx = example_batch and sv = "\<lambda>v tr. tr" and tr = "()" and d = 1
      and kw = example_kwargs and us = "UniformSampler (\<lambda>n. example_batch)"
      and s = example_flat and p = "posterior example_flat" and dd = None
      and sf = example_sf and n_arg = None and f_arg = None
      and smp = "(example_batch, example_batch, example_batch)" and i = 0 and v = 0 and t = "()"
      and u = None, THEN conjunct2, THEN conjunct2, THEN conjunct2, THEN conjunct2,
      THEN conjunct2]
  by (simp add: example_flat_def example_batch_def)

subsection \<open>The integrands\<close>

text \<open>The conversion of a number to a floating type, at the values used below.\<close>

lemma floor_log2_eq:
  assumes "2 powi e \<le> v" and "v < 2 powi (e + 1)"
  shows "\<lfloor>log 2 v\<rfloor> = e"
proof -
  have pos: "0 < v"
    using assms(1) by (rule less_le_trans [rotated]) simp
  have p: "2 powr real_of_int k = (2::real) powi k" for k
    by (simp add: powr_real_of_int')
  have "real_of_int e \<le> log 2 v"
    using assms(1) pos by (simp add: le_log_iff p)
  moreover have "log 2 v < real_of_int (e + 1)"
    using assms(2) pos by (simp only: log_less_iff p one_less_numeral_iff semiring_norm)
  ultimately show ?thesis by linarith
qed

lemma round_half_even_int: "round_half_even (of_int k) = k"
  by (simp add: round_half_even_def)

lemma round_half_even_down:
  assumes "of_int q \<le> y" and "y < of_int q + 1 / 2"
  shows "round_half_even y = q"
proof -
  have "\<lfloor>y\<rfloor> = q" using assms by linarith
  then show ?thesis using assms by (simp add: round_half_even_def Let_def)
qed

lemma cast_to_finite:
  assumes "v \<noteq> 0"
    and "2 powi e \<le> \<bar>v\<bar>" and "\<bar>v\<bar> < 2 powi (e + 1)"
    and "ulp = 2 powi (max e (min_exponent dt) - significand_bits dt + 1)"
    and "round_half_even (v / ulp) = q"
    and "\<bar>of_int q * ulp\<bar> \<le> (2 - 2 powi (1 - significand_bits dt)) * 2 powi (max_exponent dt)"
  shows "cast_to dt v = Finite (of_int q * ulp)"
proof -
  have "\<lfloor>log 2 \<bar>v\<bar>\<rfloor> = e"
    using assms(2,3) by (rule floor_log2_eq)
  then show ?thesis
    using assms(1,4,5,6) by (simp add: cast_to_def Let_def not_less)
qed

lemma cast_to_zero: "cast_to dt 0 = Finite 0"
  by (simp add: cast_to_def)

lemma cast_to_one_half: "cast_to dt (1 / 2) = Finite (1 / 2)"
proof (cases dt)
  case Float16
  have "cast_to Float16 (1 / 2) = Finite (of_int 1024 * (1 / 2 ^ 11))"
    by (rule cast_to_finite [where e = "- 1"])
      (simp_all add: power_int_minus round_half_even_down)
  then show ?thesis using Float16 by simp
next
  case BFloat16
  have "cast_to BFloat16 (1 / 2) = Finite (of_int 128 * (1 / 2 ^ 8))"
    by (rule cast_to_finite [where e = "- 1"])
      (simp_all add: power_int_minus round_half_even_down)
  then show ?thesis using BFloat16 by simp
next
  case Float32
  have "cast_to Float32 (1 / 2) = Finite (of_int 8388608 * (1 / 2 ^ 24))"
    by (rule cast_to_finite [where e = "- 1"])
      (simp_all add: power_int_minus round_half_even_down)
  then show ?thesis using Float32 by simp
next
  case Float64
  have "cast_to Float64 (1 / 2) = Finite (of_int 4503599627370496 * (1 / 2 ^ 53))"
    by (rule cast_to_finite [where e = "- 1"])
      (simp_all add: power_int_minus round_half_even_down)
  then show ?thesis using Float64 by simp
qed

lemma cast_to_one: "cast_to dt 1 = Finite 1"
proof (cases dt)
  case Float16
  have "cast_to Float16 1 = Finite (of_int 1024 * (1 / 2 ^ 10))"
    by (rule cast_to_finite [where e = 0])
      (simp_all add: power_int_minus round_half_even_down)
  then show ?thesis using Float16 by simp
next
  case BFloat16
  have "cast_to BFloat16 1 = Finite (of_int 128 * (1 / 2 ^ 7))"
    by (rule cast_to_finite [where e = 0])
      (simp_all add: power_int_minus round_half_even_down)
  then show ?thesis using BFloat16 by simp
next
  case Float32
  have "cast_to Float32 1 = Finite (of_int 8388608 * (1 / 2 ^ 23))"
    by (rule cast_to_finite [where e = 0])
      (simp_all add: power_int_minus round_half_even_down)
  then show ?thesis using Float32 by simp
next
  case Float64
  have "cast_to Float64 1 = Finite (of_int 4503599627370496 * (1 / 2 ^ 52))"
    by (rule cast_to_finite [where e = 0])
      (simp_all add: power_int_minus round_half_even_down)
  then show ?thesis using Float64 by simp
qed

lemma cast_float32_above_half:
  "cast_to Float32 (1 / 2 + 1 / 2 ^ 30) = Finite (1 / 2)"
proof -
  have "cast_to Float32 (1 / 2 + 1 / 2 ^ 30) = Finite (of_int 8388608 * (1 / 2 ^ 24))"
    by (rule cast_to_finite [where e = "- 1"])
      (simp_all add: power_int_minus round_half_even_down)
  then show ?thesis by simp
qed

text \<open>
  C10, as stated, fails: the integrand is not 1 at every point with
  \<open>x[split_dim] < frac\<close>. For a batch of type \<open>float32\<close>, \<open>frac = 0.5 + 2\<^sup>-\<^sup>3\<^sup>0\<close>, which
  the constructor accepts, is compared as 0.5, and the point 0.5 evaluates to 0.
\<close>

theorem hyperrectangle_strict_counterexample:
  "HyperrectangleVolumeIntegrand 1 (Some 0) (Some (1 / 2 + 1 / 2 ^ 30)) =
     Inr \<lparr>hr_d = 1, hr_split_dim = 0, hr_frac = 1 / 2 + 1 / 2 ^ 30\<rparr>
   \<and> (1 / 2 :: real) < 1 / 2 + 1 / 2 ^ 30
   \<and> hyperrectangle_call Float32 \<lparr>hr_d = 1, hr_split_dim = 0, hr_frac = 1 / 2 + 1 / 2 ^ 30\<rparr>
       (T2 1 [[1 / 2]]) = Inr (T1 [0])"
  using cast_float32_above_half
  by (simp add: HyperrectangleVolumeIntegrand_def hyperrectangle_call_def integrand_call_def
      hyperrectangle_evaluate_integrand_def volume_evaluate_integrand_def
      hyperrectangle_inequality_def to_dtype_def)

text \<open>
  C10, amended. The constructor of \<open>HyperrectangleVolumeIntegrand\<close> accepts exactly
  \<open>0 \<le> split_dim < d\<close> and \<open>0 \<le> frac \<le> 1\<close>, the bounds 0 and 1 of \<open>frac\<close> included;
  \<open>integral()\<close> is \<open>frac\<close>; and on a batch of shape \<open>(batch, d)\<close> the integrand is 1 at
  the points with \<open>x[split_dim]\<close> strictly below \<open>frac\<close> converted to the floating type
  of the batch and 0 at the others, so 0 at a point equal to the converted \<open>frac\<close>. The
  values 0, 0.5 and 1 of \<open>frac\<close> are converted to themselves in every floating type.
\<close>

theorem hyperrectangle_strict_cast:
  "(HyperrectangleVolumeIntegrand d (Some k) (Some fr) =
      (if 0 \<le> k \<and> k < d \<and> 0 \<le> fr \<and> fr \<le> 1
       then Inr \<lparr>hr_d = d, hr_split_dim = k, hr_frac = fr\<rparr> else Inl (AssertionError [])))
   \<and> (0 \<le> k \<and> k < d \<longrightarrow>
        HyperrectangleVolumeIntegrand d (Some k) (Some 0) =
          Inr \<lparr>hr_d = d, hr_split_dim = k, hr_frac = 0\<rparr>
        \<and> HyperrectangleVolumeIntegrand d (Some k) (Some 1) =
          Inr \<lparr>hr_d = d, hr_split_dim = k, hr_frac = 1\<rparr>)
   \<and> hyperrectangle_integral h = hr_frac h
   \<and> (0 \<le> hr_split_dim h \<and> hr_split_dim h < hr_d h \<and> int c = hr_d h \<longrightarrow>
        hyperrectangle_call dt h (T2 c rows) =
          Inr (T1 (map (\<lambda>r. if less_np (r ! nat (hr_split_dim h)) (cast_to dt (hr_frac h))
                            then 1 else 0) rows))
        \<and> hyperrectangle_evaluate_integrand dt h (T2 c rows) = hyperrectangle_call dt h (T2 c rows)
        \<and> (cast_to dt (hr_frac h) = Finite w \<longrightarrow>
              hyperrectangle_call dt h (T2 c rows) =
                Inr (T1 (map (\<lambda>r. if r ! nat (hr_split_dim h) < w then 1 else 0) rows))
              \<and> (\<forall>i < length rows. rows ! i ! nat (hr_split_dim h) = w \<longrightarrow>
                    hyperrectangle_call dt h (T2 c rows) = Inr (T1 vals) \<longrightarrow> vals ! i = 0)))
   \<and> cast_to dt 0 = Finite 0 \<and> cast_to dt (1 / 2) = Finite (1 / 2) \<and> cast_to dt 1 = Finite 1"
  by (auto simp: HyperrectangleVolumeIntegrand_def hyperrectangle_integral_def
      hyperrectangle_call_def integrand_call_def hyperrectangle_evaluate_integrand_def
      volume_evaluate_integrand_def hyperrectangle_inequality_def to_dtype_def comp_def
      cast_to_zero cast_to_one_half cast_to_one)

theorem hyperrectangle_strict_cast_witness:
  "HyperrectangleVolumeIntegrand 2 (Some 0) (Some 0) =
     Inr \<lparr>hr_d = 2, hr_split_dim = 0, hr_frac = 0\<rparr>
   \<and> HyperrectangleVolumeIntegrand 2 (Some 0) (Some 1) =
     Inr \<lparr>hr_d = 2, hr_split_dim = 0, hr_frac = 1\<rparr>
   \<and> cast_to Float32 (1 / 2) = Finite (1 / 2)
   \<and> hyperrectangle_call Float32 \<lparr>hr_d = 2, hr_split_dim = 0, hr_frac = 1 / 2\<rparr>
       (T2 2 [[1 / 2, 0], [1 / 4, 1], [3 / 4, 0]]) = Inr (T1 [0, 1, 0])"
  using hyperrectangle_strict_cast [where d = 2 and k = 0 and fr = 1
      and h = "\<lparr>hr_d = 2, hr_split_dim = 0, hr_frac = 1 / 2\<rparr>" and c = 2 and dt = Float32
      and rows = "[[1 / 2, 0], [1 / 4, 1], [3 / 4, 0]]" and w = "1 / 2"
      and vals = "[0, 1, 0]"]
  by simp

text \<open>Broadcasting a batch against the parameters of the gaussian.\<close>

lemma expand_same: "length xs = n \<Longrightarrow> expand n xs = xs"
  by (simp add: expand_def)

lemma map2_replicate_right:
  "length xs = n \<Longrightarrow> map2 f xs (replicate n y) = map (\<lambda>x. f x y) xs"
  by (induction xs arbitrary: n) auto

lemma map2_replicate_left:
  "length xs = n \<Longrightarrow> map2 f (replicate n y) xs = map (f y) xs"
  by (induction xs arbitrary: n) auto

lemma map2_expand_single_right:
  "length xs = n \<Longrightarrow> map2 f xs (expand n [y]) = map (\<lambda>x. f x y) xs"
  by (cases "n = 1") (auto simp: expand_def map2_replicate_right length_Suc_conv)

lemma map2_expand_single_left:
  "length xs = n \<Longrightarrow> map2 f (expand n [y]) xs = map (f y) xs"
  by (cases "n = 1") (auto simp: expand_def map2_replicate_left length_Suc_conv)

lemma map2_nth:
  "length xs = length ys \<Longrightarrow> map2 f xs ys = map (\<lambda>j. f (xs ! j) (ys ! j)) [0..<length xs]"
  by (rule nth_equalityI) auto

lemma map_nth_fun: "map g xs = map (\<lambda>j. g (xs ! j)) [0..<length xs]"
  by (rule nth_equalityI) auto

lemma broadcast_dim_simps [simp]:
  "broadcast_dim n n = Some n" "broadcast_dim n (Suc 0) = Some n" "broadcast_dim (Suc 0) n = Some n"
  by (auto simp: broadcast_dim_def)

lemma map_nth_map_upt:
  "map (\<lambda>j. k (map h [0..<c] ! j) j) [0..<c] = map (\<lambda>j. k (h j) j) [0..<c]"
  by (rule map_cong) auto

text \<open>A batch against a parameter of shape \<open>()\<close> or \<open>(d,)\<close>.\<close>

lemma broadcast_batch_param:
  assumes "list_all (\<lambda>r. length r = c) rows"
    and "length (shape p) = 0 \<or> shape p = [c]"
  shows "broadcast_op opr (T2 c rows) p =
           Inr (T2 c (map (\<lambda>r. map (\<lambda>j. opr (r ! j) (param_at p j)) [0..<c]) rows))"
proof (cases p)
  case (T0 v)
  have "map (\<lambda>r. map2 opr (expand c r) (expand c [v])) rows =
        map (\<lambda>r. map (\<lambda>j. opr (r ! j) v) [0..<c]) rows"
  proof (rule map_cong [OF refl])
    fix r assume "r \<in> set rows"
    then have len: "length r = c" using assms(1) by (simp add: list_all_iff)
    then have "map2 opr (expand c r) (expand c [v]) = map (\<lambda>a. opr a v) r"
      by (simp add: expand_same map2_expand_single_right)
    also have "\<dots> = map (\<lambda>j. opr (r ! j) v) [0..<c]"
      using map_nth_fun [of "\<lambda>a. opr a v" r] len by simp
    finally show "map2 opr (expand c r) (expand c [v]) = map (\<lambda>j. opr (r ! j) v) [0..<c]" .
  qed
  then show ?thesis
    using T0 by (simp add: broadcast_op_def map2_expand_single_right expand_same numeral_2_eq_2)
next
  case (T1 vs)
  then have lv: "length vs = c" using assms(2) by simp
  have "map (\<lambda>r. map2 opr (expand c r) (expand c vs)) rows =
        map (\<lambda>r. map (\<lambda>j. opr (r ! j) (vs ! j)) [0..<c]) rows"
  proof (rule map_cong [OF refl])
    fix r assume "r \<in> set rows"
    then have len: "length r = c" using assms(1) by (simp add: list_all_iff)
    then show "map2 opr (expand c r) (expand c vs) = map (\<lambda>j. opr (r ! j) (vs ! j)) [0..<c]"
      using lv map2_nth [of r vs opr] by (simp add: expand_same)
  qed
  then show ?thesis
    using T1 lv by (simp add: broadcast_op_def map2_expand_single_right expand_same numeral_2_eq_2)
next
  case (T2 c' rs)
  then show ?thesis using assms(2) by simp
qed

lemma broadcast_scalar_vector:
  "broadcast_op opr (T0 v) (T1 es) = Inr (T1 (map (opr v) es))"
  by (simp add: broadcast_op_def expand_same map2_expand_single_left)

lemma gaussian_closed_form:
  assumes "list_all (\<lambda>r. length r = c) rows"
    and "length (shape (gauss_mu g)) = 0 \<or> shape (gauss_mu g) = [c]"
    and "length (shape (gauss_s g)) = 0 \<or> shape (gauss_s g) = [c]"
    and "length (shape (gauss_norm g)) = 0"
  shows "evaluate_integrand_integrands_py g (T2 c rows) = Inr (T1 (map (gaussian_value g) rows))"
proof -
  obtain nrm where nrm: "gauss_norm g = T0 nrm"
    using assms(4) by (cases "gauss_norm g") auto
  let ?d = "map (\<lambda>r. map (\<lambda>j. r ! j - param_at (gauss_mu g) j) [0..<c]) rows"
  have d: "broadcast_op (-) (T2 c rows) (gauss_mu g) = Inr (T2 c ?d)"
    by (rule broadcast_batch_param [OF assms(1) assms(2)])
  have wfd: "list_all (\<lambda>r. length r = c) ?d"
    by (simp add: list_all_iff)
  have q: "broadcast_op np_div (T2 c ?d) (gauss_s g) =
      Inr (T2 c (map (\<lambda>r. map (\<lambda>j. np_div (r ! j) (param_at (gauss_s g) j)) [0..<c]) ?d))"
    by (rule broadcast_batch_param [OF wfd assms(3)])
  have rowval: "np_scale nrm (np_exp_neg (np_sum (map np_square
         (map (\<lambda>j. np_div (map (\<lambda>j. r ! j - param_at (gauss_mu g) j) [0..<c] ! j)
                     (param_at (gauss_s g) j)) [0..<c])))) = gaussian_value g r"
    if "r \<in> set rows" for r
  proof -
    have "length r = c"
      using that assms(1) by (simp add: list_all_iff)
    then show ?thesis
      using nrm
      by (simp add: gaussian_value_def comp_def
          map_nth_map_upt [of "\<lambda>a j. np_square (np_div a (param_at (gauss_s g) j))"
            "\<lambda>j. r ! j - param_at (gauss_mu g) j" c])
  qed
  show ?thesis
    using d q nrm rowval
    by (simp add: evaluate_integrand_integrands_py_def bind_error_def
        broadcast_scalar_vector comp_def cong: map_cong)
qed

lemma constructed_gaussian_shapes:
  assumes "DiagonalGaussianIntegrand (int c) mu_arg s_arg norm_arg = Inr g"
  shows "length (shape (gauss_mu g)) = 0 \<or> shape (gauss_mu g) = [c]"
    and "length (shape (gauss_s g)) = 0 \<or> shape (gauss_s g) = [c]"
    and "length (shape (gauss_norm g)) = 0"
  using assms
  by (auto simp: DiagonalGaussianIntegrand_def Let_def map_eq_Cons_conv split: if_splits)

lemma np_sum_finite: "np_sum (map (\<lambda>j. Finite (f j)) js) = Finite (\<Sum>j\<leftarrow>js. f j)"
  by (induction js) (simp_all add: np_sum_def)

lemma gaussian_value_finite:
  assumes "\<forall>j<length r. param_at (gauss_s g) j \<noteq> 0"
  shows "gaussian_value g r =
    Finite (param_at (gauss_norm g) 0 *
      exp (- (\<Sum>j\<leftarrow>[0..<length r].
                ((r ! j - param_at (gauss_mu g) j) / param_at (gauss_s g) j)\<^sup>2)))"
proof -
  have eq: "map (\<lambda>j. np_square (np_div (r ! j - param_at (gauss_mu g) j) (param_at (gauss_s g) j)))
          [0..<length r] =
        map (\<lambda>j. Finite (((r ! j - param_at (gauss_mu g) j) / param_at (gauss_s g) j)\<^sup>2))
          [0..<length r]"
    using assms by (intro map_cong) (simp_all add: np_div_def)
  show ?thesis
    unfolding gaussian_value_def eq np_sum_finite by simp
qed

text \<open>
  C9. The two definitions of \<open>DiagonalGaussianIntegrand.evaluate_integrand\<close> agree on every
  object and every input. On an integrand built by the constructor for dimension \<open>d\<close>
  and a batch of shape \<open>(batch, d)\<close>, both return, point by point,
  \<open>norm \<sqdot> exp(- \<Sum>\<^sub>j ((x\<^sub>j - mu\<^sub>j) / s\<^sub>j)\<^sup>2)\<close> with the float division: a finite number
  when no entry of \<open>s\<close> is zero, and at a zero entry of \<open>s\<close> the value 0 or \<open>nan\<close>
  that the division by zero leads to.
\<close>

theorem diagonal_gaussians_agree:
  "evaluate_integrand_gaussian_py g x = evaluate_integrand_integrands_py g x
   \<and> (DiagonalGaussianIntegrand (int c) mu_arg s_arg norm_arg = Inr g
        \<and> list_all (\<lambda>r. length r = c) rows \<longrightarrow>
      evaluate_integrand_integrands_py g (T2 c rows) = Inr (T1 (map (gaussian_value g) rows))
      \<and> evaluate_integrand_gaussian_py g (T2 c rows) = Inr (T1 (map (gaussian_value g) rows)))
   \<and> ((\<forall>j<length r. param_at (gauss_s g) j \<noteq> 0) \<longrightarrow>
      gaussian_value g r =
        Finite (param_at (gauss_norm g) 0 *
          exp (- (\<Sum>j\<leftarrow>[0..<length r].
                    ((r ! j - param_at (gauss_mu g) j) / param_at (gauss_s g) j)\<^sup>2))))"
proof -
  have same: "evaluate_integrand_gaussian_py g x = evaluate_integrand_integrands_py g x" for g x
    by (simp add: evaluate_integrand_gaussian_py_def evaluate_integrand_integrands_py_def)
  show ?thesis
    using same gaussian_closed_form [of c rows g]
      constructed_gaussian_shapes [of c mu_arg s_arg norm_arg g] gaussian_value_finite [of r g]
    by simp
qed

theorem diagonal_gaussians_agree_witness:
  "DiagonalGaussianIntegrand 1 (Some (T1 [0])) (Some (T0 1)) (Some (T0 2)) =
     Inr \<lparr>gauss_d = 1, gauss_mu = T1 [0], gauss_s = T0 1, gauss_norm = T0 2\<rparr>
   \<and> evaluate_integrand_gaussian_py
       \<lparr>gauss_d = 1, gauss_mu = T1 [0], gauss_s = T0 1, gauss_norm = T0 2\<rparr> (T2 1 [[0], [1]]) =
     Inr (T1 [Finite 2, Finite (2 * exp (- 1))])
   \<and> DiagonalGaussianIntegrand 1 (Some (T0 0)) (Some (T0 0)) (Some (T0 2)) =
     Inr \<lparr>gauss_d = 1, gauss_mu = T0 0, gauss_s = T0 0, gauss_norm = T0 2\<rparr>
   \<and> evaluate_integrand_integrands_py
       \<lparr>gauss_d = 1, gauss_mu = T0 0, gauss_s = T0 0, gauss_norm = T0 2\<rparr> (T2 1 [[1], [0]]) =
     Inr (T1 [Finite 0, NaN])"
proof -
  have c1: "DiagonalGaussianIntegrand (int 1) (Some (T1 [0])) (Some (T0 1)) (Some (T0 2)) =
     Inr \<lparr>gauss_d = 1, gauss_mu = T1 [0], gauss_s = T0 1, gauss_norm = T0 2\<rparr>"
    by (simp add: DiagonalGaussianIntegrand_def sanitize_variable_def Let_def)
  have c2: "DiagonalGaussianIntegrand (int 1) (Some (T0 0)) (Some (T0 0)) (Some (T0 2)) =
     Inr \<lparr>gauss_d = 1, gauss_mu = T0 0, gauss_s = T0 0, gauss_norm = T0 2\<rparr>"
    by (simp add: DiagonalGaussianIntegrand_def sanitize_variable_def Let_def)
  show ?thesis
    using c1 c2
      diagonal_gaussians_agree [where c = 1 and mu_arg = "Some (T1 [0])"
        and s_arg = "Some (T0 1)" and norm_arg = "Some (T0 2)" and rows = "[[0], [1]]"
        and g = "\<lparr>gauss_d = 1, gauss_mu = T1 [0], gauss_s = T0 1, gauss_norm = T0 2\<rparr>"
        and x = "T0 0" and r = "[0]"]
      diagonal_gaussians_agree [where c = 1 and mu_arg = "Some (T0 0)"
        and s_arg = "Some (T0 0)" and norm_arg = "Some (T0 2)" and rows = "[[1], [0]]"
        and g = "\<lparr>gauss_d = 1, gauss_mu = T0 0, gauss_s = T0 0, gauss_norm = T0 2\<rparr>"
        and x = "T0 0" and r = "[]"]
    by (simp add: gaussian_value_def np_sum_def np_div_def)
qed

end
